theory Spec2Isabelle
  imports Complex_Main
begin

section \<open>Material scattering of the path tracer (interactions.h)\<close>

text \<open>
  The header \<^verbatim>\<open>interactions.h\<close> holds the cosine-weighted hemisphere sampler
  \<^verbatim>\<open>calculateRandomDirectionInHemisphere\<close>, the per-bounce scattering step
  \<^verbatim>\<open>scatterRay\<close> and the functor \<^verbatim>\<open>isTerminated\<close>.

  Every \<^verbatim>\<open>float\<close> of the source is a \<^typ>\<open>real\<close> here: the development is about
  the arithmetic the code writes down, evaluated exactly. Rounding, infinities and NaN
  are outside the model.
\<close>

subsection \<open>Vectors (glm::vec3) and the GLM functions the header calls\<close>

datatype vec3 = vec3 (x_of: real) (y_of: real) (z_of: real)

text \<open>\<^verbatim>\<open>a + b\<close> on vectors.\<close>

fun vadd :: "vec3 \<Rightarrow> vec3 \<Rightarrow> vec3" where
  "vadd (vec3 a b c) (vec3 d e f) = vec3 (a + d) (b + e) (c + f)"

text \<open>\<^verbatim>\<open>a - b\<close> on vectors.\<close>

fun vsub :: "vec3 \<Rightarrow> vec3 \<Rightarrow> vec3" where
  "vsub (vec3 a b c) (vec3 d e f) = vec3 (a - d) (b - e) (c - f)"

text \<open>\<^verbatim>\<open>a * b\<close> on vectors is componentwise (as in \<^verbatim>\<open>color *= m.specular.color\<close>).\<close>

fun vmul :: "vec3 \<Rightarrow> vec3 \<Rightarrow> vec3" where
  "vmul (vec3 a b c) (vec3 d e f) = vec3 (a * d) (b * e) (c * f)"

text \<open>A scalar times a vector, a vector times a scalar, a vector over a scalar.\<close>

fun smul :: "real \<Rightarrow> vec3 \<Rightarrow> vec3" where
  "smul k (vec3 a b c) = vec3 (k * a) (k * b) (k * c)"

fun vscale :: "vec3 \<Rightarrow> real \<Rightarrow> vec3" where
  "vscale (vec3 a b c) k = vec3 (a * k) (b * k) (c * k)"

fun vdiv :: "vec3 \<Rightarrow> real \<Rightarrow> vec3" where
  "vdiv (vec3 a b c) k = vec3 (a / k) (b / k) (c / k)"

text \<open>\<^verbatim>\<open>glm::dot\<close> and \<^verbatim>\<open>glm::cross\<close>.\<close>

fun dot :: "vec3 \<Rightarrow> vec3 \<Rightarrow> real" where
  "dot (vec3 a b c) (vec3 d e f) = a * d + b * e + c * f"

fun cross :: "vec3 \<Rightarrow> vec3 \<Rightarrow> vec3" where
  "cross (vec3 a b c) (vec3 d e f) = vec3 (b * f - e * c) (c * d - f * a) (a * e - d * b)"

text \<open>
  \<^verbatim>\<open>glm::normalize(v)\<close> is \<^verbatim>\<open>v * inversesqrt(dot(v, v))\<close>. On the zero vector the
  float code multiplies by an infinity; here \<open>1 / sqrt 0 = 0\<close>, so a theorem below
  whose conclusion rests on the value of a normalised vector assumes what makes that
  vector non-zero (a unit normal, for the sampler).
\<close>

definition normalize :: "vec3 \<Rightarrow> vec3" where
  "normalize v = vscale v (1 / sqrt (dot v v))"

text \<open>\<^verbatim>\<open>glm::length\<close>, used only to state that a vector is a unit vector.\<close>

definition vlength :: "vec3 \<Rightarrow> real" where
  "vlength v = sqrt (dot v v)"

text \<open>\<^verbatim>\<open>glm::reflect(I, N)\<close> is \<^verbatim>\<open>I - N * dot(N, I) * 2\<close>.\<close>

definition reflect :: "vec3 \<Rightarrow> vec3 \<Rightarrow> vec3" where
  "reflect I N = vsub I (vscale (vscale N (dot N I)) 2)"

text \<open>
  \<^verbatim>\<open>glm::refract(I, N, eta)\<close>: with \<^verbatim>\<open>k = 1 - eta * eta * (1 - dot(N, I) * dot(N, I))\<close>
  it is \<^verbatim>\<open>eta * I - (eta * dot(N, I) + sqrt(k)) * N\<close> when \<^verbatim>\<open>k >= 0\<close> and the zero
  vector otherwise.
\<close>

definition refract :: "vec3 \<Rightarrow> vec3 \<Rightarrow> real \<Rightarrow> vec3" where
  "refract I N eta =
     (let dotValue = dot N I;
          k = 1 - eta * eta * (1 - dotValue * dotValue)
      in if k \<ge> 0 then vsub (smul eta I) (smul (eta * dotValue + sqrt k) N)
         else vec3 0 0 0)"

subsection \<open>Scene structures\<close>

text \<open>
  Modelled from the spec: the declarations of \<^verbatim>\<open>Ray\<close>, \<^verbatim>\<open>Material\<close> and
  \<^verbatim>\<open>PathSegment\<close> are in a header that is not part of the source at hand. The records
  hold the fields that section 3 of the specification lists, which are the fields
  \<^verbatim>\<open>interactions.h\<close> reads and writes; \<open>remainingBounces\<close> is the "integer budget"
  of the specification, and the two material flags are floats compared with
  \<^verbatim>\<open>0.0f\<close> and \<^verbatim>\<open>1.0f\<close>.
\<close>

record Ray =
  origin :: vec3
  direction :: vec3

record Specular =
  color :: vec3

record Material =
  color :: vec3
  specular :: Specular
  hasReflective :: real
  hasRefractive :: real
  indexOfRefraction :: real

record PathSegment =
  ray :: Ray
  color :: vec3
  remainingBounces :: int

subsection \<open>Constants and the random engine\<close>

text \<open>
  Modelled from the spec: the macros \<^verbatim>\<open>PI\<close>, \<^verbatim>\<open>TWO_PI\<close> and
  \<^verbatim>\<open>SQRT_OF_ONE_THIRD\<close> are defined in a header that is not part of the source at
  hand. The specification writes them \<open>pi\<close>, \<open>2*pi\<close> and \<open>sqrt(1/3)\<close>.
\<close>

definition PI :: real where
  "PI = pi"

definition TWO_PI :: real where
  "TWO_PI = 2 * pi"

definition SQRT_OF_ONE_THIRD :: real where
  "SQRT_OF_ONE_THIRD = sqrt (1 / 3)"

text \<open>
  \<^verbatim>\<open>thrust::default_random_engine\<close> is passed by reference and advanced by every
  draw. The engine is the sequence of values that
  \<^verbatim>\<open>thrust::uniform_real_distribution<float> u01(0, 1)\<close> will return from it, with
  the number of draws made so far; \<open>u01\<close> returns the next value and the advanced
  engine.
\<close>

record default_random_engine =
  samples :: "nat \<Rightarrow> real"
  drawn :: nat

definition u01 :: "default_random_engine \<Rightarrow> real \<times> default_random_engine" where
  "u01 rng = (samples rng (drawn rng), rng\<lparr>drawn := Suc (drawn rng)\<rparr>)"

subsection \<open>The hemisphere sampler\<close>

definition calculateRandomDirectionInHemisphere ::
  "vec3 \<Rightarrow> default_random_engine \<Rightarrow> vec3 \<times> default_random_engine" where
  "calculateRandomDirectionInHemisphere normal rng =
     (let (u1, rng1) = u01 rng;
          up = sqrt u1;
          over = sqrt (1 - up * up);
          (u2, rng2) = u01 rng1;
          around = u2 * TWO_PI;
          directionNotNormal =
            (if \<bar>x_of normal\<bar> < SQRT_OF_ONE_THIRD then vec3 1 0 0
             else if \<bar>y_of normal\<bar> < SQRT_OF_ONE_THIRD then vec3 0 1 0
             else vec3 0 0 1);
          perpendicularDirection1 = normalize (cross normal directionNotNormal);
          perpendicularDirection2 = normalize (cross normal perpendicularDirection1)
      in (vadd (vadd (smul up normal)
                     (smul (cos around * over) perpendicularDirection1))
               (smul (sin around * over) perpendicularDirection2),
          rng2))"

subsection \<open>The scattering step\<close>

text \<open>
  \<^verbatim>\<open>scatterRay\<close> changes the path segment and the engine in place; the model returns
  both. The three \<^verbatim>\<open>if\<close> blocks each end in \<^verbatim>\<open>return\<close>, and a material that enters
  none of them leaves the function at its closing brace. \<^verbatim>\<open>powf(b, 5.0f)\<close> is the
  fifth power of \<open>b\<close>, and the float literals \<^verbatim>\<open>0.0001f\<close>, \<^verbatim>\<open>0.01f\<close> and
  \<^verbatim>\<open>1.5f\<close> are the decimal fractions they denote.
\<close>

definition scatterRay ::
  "PathSegment \<Rightarrow> vec3 \<Rightarrow> vec3 \<Rightarrow> Material \<Rightarrow> default_random_engine
     \<Rightarrow> PathSegment \<times> default_random_engine" where
  "scatterRay pathSegment intersect normal m rng =
     (if hasReflective m = 0 \<and> hasRefractive m = 0 then
        (let (rayDirection, rng1) = calculateRandomDirectionInHemisphere normal rng;
             nDotr = \<bar>dot normal rayDirection\<bar>;
             pdf = nDotr / PI;
             f = vdiv (Material.color m) PI
         in if pdf = 0 then
              (pathSegment\<lparr>remainingBounces := 0,
                            PathSegment.color := vec3 0 0 0\<rparr>, rng1)
            else
              (pathSegment
                 \<lparr>PathSegment.color :=
                    vmul (PathSegment.color pathSegment) (vdiv (vscale f nDotr) pdf),
                  remainingBounces := remainingBounces pathSegment - 1,
                  ray := \<lparr>origin = vadd intersect (vscale normal 0.0001),
                           direction = rayDirection\<rparr>\<rparr>, rng1))
      else if hasReflective m = 1 \<and> hasRefractive m = 0 then
        (let rayDirection = reflect (direction (ray pathSegment)) normal
         in (pathSegment
               \<lparr>PathSegment.color :=
                  vmul (PathSegment.color pathSegment) (Specular.color (specular m)),
                remainingBounces := remainingBounces pathSegment - 1,
                ray := \<lparr>origin = vadd intersect (vscale normal 0.0001),
                         direction = rayDirection\<rparr>\<rparr>, rng))
      else if hasReflective m = 1 \<and> hasRefractive m = 1 then
        (let (refractNormal, niOvernt) =
               (if dot (direction (ray pathSegment)) normal > 0
                then (smul (-1) normal, indexOfRefraction m)
                else (normal, 1 / indexOfRefraction m));
             cosine = dot (direction (ray pathSegment)) refractNormal;
             discriminant = 1 - niOvernt * niOvernt * (1 - cosine * cosine)
         in if discriminant > 0 then
              (let r0 = (1 - niOvernt) / (1 + niOvernt);
                   r0 = r0 * r0;
                   reflectProb = r0 + (1 - r0) * (1 - max 0 cosine) ^ 5;
                   (random, rng1) = u01 rng
               in if random > reflectProb / 1.5 then
                    (let rayDirection =
                           reflect (direction (ray pathSegment)) refractNormal
                     in (pathSegment
                           \<lparr>PathSegment.color :=
                              vmul (PathSegment.color pathSegment)
                                   (Specular.color (specular m)),
                            remainingBounces := remainingBounces pathSegment - 1,
                            ray := \<lparr>origin = vadd intersect (vscale refractNormal 0.01),
                                     direction = rayDirection\<rparr>\<rparr>, rng1))
                  else
                    (let refractedDir =
                           refract (direction (ray pathSegment)) refractNormal niOvernt
                     in (pathSegment
                           \<lparr>ray := \<lparr>origin = vadd intersect (vscale refractedDir 0.01),
                                     direction = normalize refractedDir\<rparr>,
                            remainingBounces := remainingBounces pathSegment - 1,
                            PathSegment.color :=
                              vmul (PathSegment.color pathSegment)
                                   (Specular.color (specular m))\<rparr>, rng1)))
            else
              (let rayDirection = reflect (direction (ray pathSegment)) refractNormal
               in (pathSegment
                     \<lparr>ray := \<lparr>origin = vadd intersect (vscale refractNormal 0.01),
                               direction = rayDirection\<rparr>,
                      PathSegment.color := vec3 0 0 0,
                      remainingBounces := remainingBounces pathSegment - 1\<rparr>, rng)))
      else (pathSegment, rng))"

subsection \<open>The termination functor\<close>

text \<open>
  \<^verbatim>\<open>bool operator()(const PathSegment& pathSegment)\<close> of \<^verbatim>\<open>struct isTerminated\<close>:
  the segment is taken by const reference and only read.
\<close>

definition isTerminated :: "PathSegment \<Rightarrow> bool" where
  "isTerminated pathSegment = (remainingBounces pathSegment > 0)"

subsection \<open>Vocabulary of the statements\<close>

text \<open>A colour is non-negative when each of its three channels is.\<close>

definition nonneg :: "vec3 \<Rightarrow> bool" where
  "nonneg v = (0 \<le> x_of v \<and> 0 \<le> y_of v \<and> 0 \<le> z_of v)"

section \<open>Vector algebra\<close>

lemma dot_commute: "dot a b = dot b a"
  by (cases a; cases b) simp

lemma dot_vadd_left: "dot (vadd a b) c = dot a c + dot b c"
  by (cases a; cases b; cases c) (simp add: algebra_simps)

lemma dot_vadd_right: "dot c (vadd a b) = dot c a + dot c b"
  by (cases a; cases b; cases c) (simp add: algebra_simps)

lemma dot_vsub_left: "dot (vsub a b) c = dot a c - dot b c"
  by (cases a; cases b; cases c) (simp add: algebra_simps)

lemma dot_vsub_right: "dot c (vsub a b) = dot c a - dot c b"
  by (cases a; cases b; cases c) (simp add: algebra_simps)

lemma dot_smul_left: "dot (smul k a) c = k * dot a c"
  by (cases a; cases c) (simp add: algebra_simps)

lemma dot_smul_right: "dot c (smul k a) = k * dot c a"
  by (cases a; cases c) (simp add: algebra_simps)

lemma dot_vscale_left: "dot (vscale a k) c = k * dot a c"
  by (cases a; cases c) (simp add: algebra_simps)

lemma dot_vscale_right: "dot c (vscale a k) = k * dot c a"
  by (cases a; cases c) (simp add: algebra_simps)

lemma dot_cross_first: "dot n (cross n a) = 0"
  by (cases n; cases a) (simp add: algebra_simps)

lemma dot_cross_second: "dot a (cross n a) = 0"
  by (cases n; cases a) (simp add: algebra_simps)

text \<open>Lagrange's identity: the squared length of a cross product.\<close>

lemma cross_lagrange: "dot (cross n a) (cross n a) = dot n n * dot a a - dot n a * dot n a"
  by (cases n; cases a) (simp add: algebra_simps)

lemma normalize_unit:
  assumes "0 < dot v v"
  shows "dot (normalize v) (normalize v) = 1"
proof -
  have "dot (normalize v) (normalize v) = dot v v / (sqrt (dot v v) * sqrt (dot v v))"
    by (simp add: normalize_def dot_vscale_left dot_vscale_right)
  also have "\<dots> = 1" using assms by simp
  finally show ?thesis .
qed

lemma dot_normalize_right: "dot a (normalize v) = dot a v / sqrt (dot v v)"
  by (simp add: normalize_def dot_vscale_right)

text \<open>
  A reflection about a unit normal negates the component along the normal and keeps
  the length.
\<close>

lemma reflect_geometric:
  assumes "dot N N = 1"
  shows "dot (reflect I N) N = - dot I N"
    and "dot (reflect I N) (reflect I N) = dot I I"
proof -
  have c: "dot N I = dot I N" by (rule dot_commute)
  show "dot (reflect I N) N = - dot I N"
    by (simp add: reflect_def dot_vsub_left dot_vscale_left assms c)
  show "dot (reflect I N) (reflect I N) = dot I I"
    by (simp add: reflect_def dot_vsub_left dot_vsub_right dot_vscale_left dot_vscale_right
          assms c algebra_simps)
qed

lemma nonneg_vmul: "nonneg a \<Longrightarrow> nonneg b \<Longrightarrow> nonneg (vmul a b)"
  by (cases a; cases b) (simp add: nonneg_def)

lemma nonneg_zero: "nonneg (vec3 0 0 0)"
  by (simp add: nonneg_def)

section \<open>The hemisphere sampler returns a unit vector of the upper half\<close>

lemma sqrt_third_bounds: "0 < SQRT_OF_ONE_THIRD" "SQRT_OF_ONE_THIRD \<le> 1"
  by (simp_all add: SQRT_OF_ONE_THIRD_def)

text \<open>
  The axis that the sampler picks is never parallel to a unit normal, so the first
  cross product is not the zero vector and its normalisation divides by a positive
  length.
\<close>

lemma directionNotNormal_cross_nonzero:
  assumes "dot n n = 1"
  shows "0 < dot (cross n (if \<bar>x_of n\<bar> < SQRT_OF_ONE_THIRD then vec3 1 0 0
                           else if \<bar>y_of n\<bar> < SQRT_OF_ONE_THIRD then vec3 0 1 0
                           else vec3 0 0 1))
                 (cross n (if \<bar>x_of n\<bar> < SQRT_OF_ONE_THIRD then vec3 1 0 0
                           else if \<bar>y_of n\<bar> < SQRT_OF_ONE_THIRD then vec3 0 1 0
                           else vec3 0 0 1))"
proof (cases n)
  case (vec3 a b c)
  with assms have unit: "a * a + b * b + c * c = 1" by simp
  show ?thesis
  proof (cases "\<bar>a\<bar> < SQRT_OF_ONE_THIRD")
    case True
    with sqrt_third_bounds(2) have "\<bar>a\<bar> < 1" by linarith
    then have "a * a < 1" by (simp add: abs_square_less_1 power2_eq_square [symmetric])
    with unit have "0 < c * c + b * b" by linarith
    with True vec3 show ?thesis by simp
  next
    case False
    with sqrt_third_bounds(1) have "a \<noteq> 0" by auto
    then have "0 < a * a" by (simp add: zero_less_mult_iff) linarith
    moreover have "0 \<le> b * b" "0 \<le> c * c" by simp_all
    ultimately have "0 < c * c + a * a" "0 < b * b + a * a" by linarith+
    with False vec3 show ?thesis by simp
  qed
qed

text \<open>The two perpendicular directions form an orthonormal frame with the normal.\<close>

lemma hemisphere_frame:
  assumes n: "dot n n = 1" and c: "0 < dot (cross n a) (cross n a)"
    and p1: "p1 = normalize (cross n a)"
    and p2: "p2 = normalize (cross n p1)"
  shows "dot p1 p1 = 1" "dot n p1 = 0" "dot p2 p2 = 1" "dot n p2 = 0" "dot p1 p2 = 0"
proof -
  show u1: "dot p1 p1 = 1" unfolding p1 using c by (rule normalize_unit)
  show o1: "dot n p1 = 0" unfolding p1 by (simp add: dot_normalize_right dot_cross_first)
  have len: "dot (cross n p1) (cross n p1) = 1"
    by (simp add: cross_lagrange n u1 o1)
  show "dot p2 p2 = 1" unfolding p2 by (rule normalize_unit) (simp add: len)
  show "dot n p2 = 0" unfolding p2 by (simp add: dot_normalize_right dot_cross_first)
  show "dot p1 p2 = 0" unfolding p2 by (simp add: dot_normalize_right dot_cross_second)
qed

lemma frame_combination:
  assumes "dot n n = 1" "dot p1 p1 = 1" "dot p2 p2 = 1"
    and "dot n p1 = 0" "dot n p2 = 0" "dot p1 p2 = 0"
    and d: "d = vadd (vadd (smul a n) (smul b p1)) (smul c p2)"
  shows "dot d n = a" and "dot d d = a * a + b * b + c * c"
proof -
  have sym: "dot p1 n = 0" "dot p2 n = 0" "dot p2 p1 = 0"
    using assms(4-6) by (simp_all add: dot_commute)
  show "dot d n = a"
    by (simp add: d dot_vadd_left dot_smul_left assms(1) sym)
  show "dot d d = a * a + b * b + c * c"
    by (simp add: d dot_vadd_left dot_vadd_right dot_smul_left dot_smul_right assms(1-6) sym)
qed

lemma planar_square:
  fixes c k s :: real
  shows "(c * k) * (c * k) + (s * k) * (s * k) = (k * k) * (c * c + s * s)"
  by (simp add: algebra_simps)

text \<open>
  C6. For a unit normal \<open>n\<close> and the two draws \<open>u1\<close>, \<open>u2\<close> in \<open>[0,1)\<close> that the
  sampler takes from the engine (in this order), the returned direction \<open>d\<close> has
  \<open>dot d n = sqrt u1\<close>, which is not negative, and length 1. The range of \<open>u2\<close> is a
  hypothesis of the claim; the proof does not need it.
\<close>

theorem hemisphere_sample_unit_upper:
  assumes "dot n n = 1"
    and "u1 = samples rng (drawn rng)" and "u2 = samples rng (Suc (drawn rng))"
    and "0 \<le> u1" "u1 < 1" "0 \<le> u2" "u2 < 1"
    and "d = fst (calculateRandomDirectionInHemisphere n rng)"
  shows "dot d n = sqrt u1 \<and> 0 \<le> dot d n \<and> vlength d = 1"
proof -
  define a where "a = (if \<bar>x_of n\<bar> < SQRT_OF_ONE_THIRD then vec3 1 0 0
                        else if \<bar>y_of n\<bar> < SQRT_OF_ONE_THIRD then vec3 0 1 0
                        else vec3 0 0 1)"
  define p1 where "p1 = normalize (cross n a)"
  define p2 where "p2 = normalize (cross n p1)"
  define over where "over = sqrt (1 - sqrt u1 * sqrt u1)"
  define around where "around = u2 * TWO_PI"
  have d: "d = vadd (vadd (smul (sqrt u1) n) (smul (cos around * over) p1))
                    (smul (sin around * over) p2)"
    by (simp add: assms(8) calculateRandomDirectionInHemisphere_def u01_def Let_def
          assms(2,3) a_def p1_def p2_def over_def around_def)
  have nz: "0 < dot (cross n a) (cross n a)"
    unfolding a_def using assms(1) by (rule directionNotNormal_cross_nonzero)
  note fr = hemisphere_frame [OF assms(1) nz p1_def p2_def]
  note comb = frame_combination [OF assms(1) fr(1) fr(3) fr(2) fr(4) fr(5) d]
  have up2: "sqrt u1 * sqrt u1 = u1" using assms(4) by simp
  have over2: "over * over = 1 - u1" using assms(4,5) by (simp add: over_def up2)
  have cs: "cos around * cos around + sin around * sin around = 1"
    using sin_cos_squared_add2 [of around] by (simp only: power2_eq_square)
  have ring: "(cos around * over) * (cos around * over)
              + (sin around * over) * (sin around * over) = 1 - u1"
    unfolding planar_square [of "cos around" over "sin around"] cs over2 by simp
  have "dot d d = 1" using comb(2) up2 ring by simp
  then have "vlength d = 1" by (simp add: vlength_def)
  moreover have "dot d n = sqrt u1" by (rule comb(1))
  moreover have "0 \<le> sqrt u1" using assms(4) by simp
  ultimately show ?thesis by simp
qed

theorem hemisphere_sample_unit_upper_witness:
  "dot (fst (calculateRandomDirectionInHemisphere (vec3 0 1 0)
               \<lparr>samples = (\<lambda>i. 1 / 4), drawn = 0\<rparr>)) (vec3 0 1 0) = sqrt (1 / 4)
   \<and> vlength (fst (calculateRandomDirectionInHemisphere (vec3 0 1 0)
               \<lparr>samples = (\<lambda>i. 1 / 4), drawn = 0\<rparr>)) = 1"
  using hemisphere_sample_unit_upper
    [of "vec3 0 1 0" "1 / 4" "\<lparr>samples = (\<lambda>i. 1 / 4), drawn = 0\<rparr>" "1 / 4"
        "fst (calculateRandomDirectionInHemisphere (vec3 0 1 0)
               \<lparr>samples = (\<lambda>i. 1 / 4), drawn = 0\<rparr>)"]
  by simp

section \<open>The diffuse branch\<close>

lemma PI_pos: "0 < PI"
  by (simp add: PI_def)

text \<open>The importance-sampling ratio of the Lambertian branch cancels to the albedo.\<close>

lemma lambert_ratio:
  assumes "k \<noteq> 0"
  shows "vdiv (vscale (vdiv c PI) k) (k / PI) = c"
  using assms PI_pos by (cases c) simp

text \<open>The two outcomes of the diffuse branch, by the test \<^verbatim>\<open>pdf == 0.f\<close>.\<close>

lemma scatterRay_diffuse_zero:
  assumes "hasReflective m = 0" and "hasRefractive m = 0"
    and "\<bar>dot n (fst (calculateRandomDirectionInHemisphere n rng))\<bar> / PI = 0"
  shows "scatterRay s p n m rng =
           (s\<lparr>remainingBounces := 0, PathSegment.color := vec3 0 0 0\<rparr>,
            snd (calculateRandomDirectionInHemisphere n rng))"
  using assms(3) by (simp add: scatterRay_def assms(1,2) Let_def case_prod_beta)

lemma scatterRay_diffuse_nonzero:
  assumes "hasReflective m = 0" and "hasRefractive m = 0"
    and "\<bar>dot n (fst (calculateRandomDirectionInHemisphere n rng))\<bar> / PI \<noteq> 0"
  shows "scatterRay s p n m rng =
           (s\<lparr>PathSegment.color :=
                vmul (PathSegment.color s)
                  (vdiv (vscale (vdiv (Material.color m) PI)
                           \<bar>dot n (fst (calculateRandomDirectionInHemisphere n rng))\<bar>)
                        (\<bar>dot n (fst (calculateRandomDirectionInHemisphere n rng))\<bar> / PI)),
              remainingBounces := remainingBounces s - 1,
              ray := \<lparr>origin = vadd p (vscale n (1 / 10000)),
                       direction = fst (calculateRandomDirectionInHemisphere n rng)\<rparr>\<rparr>,
            snd (calculateRandomDirectionInHemisphere n rng))"
  using assms(3) by (simp add: scatterRay_def assms(1,2) Let_def case_prod_beta)

text \<open>
  Two runs of the sampler on the normal \<open>(0, 1, 0)\<close>: with a first draw of 0 the
  direction is tangent to the surface, with a first draw of 1/4 it is 60 degrees off
  the normal.
\<close>

lemma sample_tangent:
  "calculateRandomDirectionInHemisphere (vec3 0 1 0) \<lparr>samples = (\<lambda>i. 0), drawn = 0\<rparr>
   = (vec3 0 0 (-1), \<lparr>samples = (\<lambda>i. 0), drawn = 2\<rparr>)"
  by (simp add: calculateRandomDirectionInHemisphere_def u01_def SQRT_OF_ONE_THIRD_def
        TWO_PI_def normalize_def Let_def)

lemma sample_quarter:
  "calculateRandomDirectionInHemisphere (vec3 0 1 0)
     \<lparr>samples = (\<lambda>i. if i = 0 then 1 / 4 else 0), drawn = 0\<rparr>
   = (vec3 0 (1 / 2) (- (sqrt 3 / 2)),
      \<lparr>samples = (\<lambda>i. if i = 0 then 1 / 4 else 0), drawn = 2\<rparr>)"
  by (simp add: calculateRandomDirectionInHemisphere_def u01_def SQRT_OF_ONE_THIRD_def
        TWO_PI_def normalize_def Let_def real_sqrt_divide)

text \<open>
  C2. In the diffuse branch, when the sampled direction \<open>d\<close> gives
  \<open>nDotR = \<bar>dot n d\<bar>\<close> and \<open>pdf = nDotR / PI\<close> is not zero, the factor
  \<open>(m.color / PI) * nDotR / pdf\<close> is \<open>m.color\<close>, and the colour after the call is the
  colour before it times \<open>m.color\<close>, channel by channel.
\<close>

theorem scatterRay_diffuse_throughput:
  assumes "hasReflective m = 0" and "hasRefractive m = 0"
    and "d = fst (calculateRandomDirectionInHemisphere n rng)"
    and "nDotR = \<bar>dot n d\<bar>"
    and "pdf = nDotR / PI"
    and "pdf \<noteq> 0"
  shows "vdiv (vscale (vdiv (Material.color m) PI) nDotR) pdf = Material.color m
         \<and> PathSegment.color (fst (scatterRay s p n m rng))
             = vmul (PathSegment.color s) (Material.color m)"
proof -
  from assms(5,6) have k: "nDotR \<noteq> 0" by auto
  have r: "vdiv (vscale (vdiv (Material.color m) PI) nDotR) pdf = Material.color m"
    unfolding assms(5) using k by (rule lambert_ratio)
  have nz: "\<bar>dot n (fst (calculateRandomDirectionInHemisphere n rng))\<bar> / PI \<noteq> 0"
    using assms(6) unfolding assms(5) assms(4) assms(3) .
  have "PathSegment.color (fst (scatterRay s p n m rng))
          = vmul (PathSegment.color s) (vdiv (vscale (vdiv (Material.color m) PI) nDotR) pdf)"
    unfolding assms(5) assms(4) assms(3)
    by (simp add: scatterRay_diffuse_nonzero [OF assms(1,2) nz])
  with r show ?thesis by simp
qed

theorem scatterRay_diffuse_throughput_witness:
  "PathSegment.color (fst (scatterRay
     \<lparr>ray = \<lparr>origin = vec3 0 0 0, direction = vec3 0 (-1) 0\<rparr>,
      PathSegment.color = vec3 1 (1 / 2) (1 / 4), remainingBounces = 5\<rparr>
     (vec3 1 0 0) (vec3 0 1 0)
     \<lparr>Material.color = vec3 (4 / 5) (4 / 5) (4 / 5),
      specular = \<lparr>Specular.color = vec3 (1 / 2) (1 / 2) 1\<rparr>,
      hasReflective = 0, hasRefractive = 0, indexOfRefraction = 3 / 2\<rparr>
     \<lparr>samples = (\<lambda>i. if i = 0 then 1 / 4 else 0), drawn = 0\<rparr>))
   = vec3 (4 / 5) (2 / 5) (1 / 5)"
  using scatterRay_diffuse_throughput
    [of "\<lparr>Material.color = vec3 (4 / 5) (4 / 5) (4 / 5),
          specular = \<lparr>Specular.color = vec3 (1 / 2) (1 / 2) 1\<rparr>,
          hasReflective = 0, hasRefractive = 0, indexOfRefraction = 3 / 2\<rparr>"
        "vec3 0 (1 / 2) (- (sqrt 3 / 2))" "vec3 0 1 0"
        "\<lparr>samples = (\<lambda>i. if i = 0 then 1 / 4 else 0), drawn = 0\<rparr>"
        "1 / 2" "1 / 2 / PI"]
  by (simp add: sample_quarter PI_def)

text \<open>
  C5. In the diffuse branch, when the sampled direction gives \<open>pdf = 0\<close>, the call
  returns normally with \<open>remainingBounces = 0\<close> and the colour \<open>(0, 0, 0)\<close>. The
  function has no failing exit: \<open>scatterRay\<close> is total and returns a segment on every
  input.
\<close>

theorem scatterRay_diffuse_degenerate:
  assumes "hasReflective m = 0" and "hasRefractive m = 0"
    and "d = fst (calculateRandomDirectionInHemisphere n rng)"
    and "\<bar>dot n d\<bar> / PI = 0"
  shows "remainingBounces (fst (scatterRay s p n m rng)) = 0
         \<and> PathSegment.color (fst (scatterRay s p n m rng)) = vec3 0 0 0"
  using scatterRay_diffuse_zero [OF assms(1,2) assms(4) [unfolded assms(3)]] by simp

theorem scatterRay_diffuse_degenerate_witness:
  "remainingBounces (fst (scatterRay
     \<lparr>ray = \<lparr>origin = vec3 0 0 0, direction = vec3 0 (-1) 0\<rparr>,
      PathSegment.color = vec3 1 (1 / 2) (1 / 4), remainingBounces = 5\<rparr>
     (vec3 1 0 0) (vec3 0 1 0)
     \<lparr>Material.color = vec3 (4 / 5) (4 / 5) (4 / 5),
      specular = \<lparr>Specular.color = vec3 (1 / 2) (1 / 2) 1\<rparr>,
      hasReflective = 0, hasRefractive = 0, indexOfRefraction = 3 / 2\<rparr>
     \<lparr>samples = (\<lambda>i. 0), drawn = 0\<rparr>)) = 0
   \<and> PathSegment.color (fst (scatterRay
     \<lparr>ray = \<lparr>origin = vec3 0 0 0, direction = vec3 0 (-1) 0\<rparr>,
      PathSegment.color = vec3 1 (1 / 2) (1 / 4), remainingBounces = 5\<rparr>
     (vec3 1 0 0) (vec3 0 1 0)
     \<lparr>Material.color = vec3 (4 / 5) (4 / 5) (4 / 5),
      specular = \<lparr>Specular.color = vec3 (1 / 2) (1 / 2) 1\<rparr>,
      hasReflective = 0, hasRefractive = 0, indexOfRefraction = 3 / 2\<rparr>
     \<lparr>samples = (\<lambda>i. 0), drawn = 0\<rparr>)) = vec3 0 0 0"
  using scatterRay_diffuse_degenerate
    [of "\<lparr>Material.color = vec3 (4 / 5) (4 / 5) (4 / 5),
          specular = \<lparr>Specular.color = vec3 (1 / 2) (1 / 2) 1\<rparr>,
          hasReflective = 0, hasRefractive = 0, indexOfRefraction = 3 / 2\<rparr>"
        "vec3 0 0 (-1)" "vec3 0 1 0" "\<lparr>samples = (\<lambda>i. 0), drawn = 0\<rparr>"]
  by (simp add: sample_tangent)

text \<open>
  C9. In the same degenerate case the ray is not written: origin and direction keep
  their values, and the segment after the call is the segment before it with only
  \<open>color\<close> and \<open>remainingBounces\<close> replaced.
\<close>

theorem scatterRay_diffuse_degenerate_frame:
  assumes "hasReflective m = 0" and "hasRefractive m = 0"
    and "d = fst (calculateRandomDirectionInHemisphere n rng)"
    and "\<bar>dot n d\<bar> / PI = 0"
  shows "origin (ray (fst (scatterRay s p n m rng))) = origin (ray s)
         \<and> direction (ray (fst (scatterRay s p n m rng))) = direction (ray s)
         \<and> fst (scatterRay s p n m rng)
             = s\<lparr>PathSegment.color := vec3 0 0 0, remainingBounces := 0\<rparr>"
  using scatterRay_diffuse_zero [OF assms(1,2) assms(4) [unfolded assms(3)]] by simp

theorem scatterRay_diffuse_degenerate_frame_witness:
  "ray (fst (scatterRay
     \<lparr>ray = \<lparr>origin = vec3 0 0 0, direction = vec3 0 (-1) 0\<rparr>,
      PathSegment.color = vec3 1 (1 / 2) (1 / 4), remainingBounces = 5\<rparr>
     (vec3 1 0 0) (vec3 0 1 0)
     \<lparr>Material.color = vec3 (4 / 5) (4 / 5) (4 / 5),
      specular = \<lparr>Specular.color = vec3 (1 / 2) (1 / 2) 1\<rparr>,
      hasReflective = 0, hasRefractive = 0, indexOfRefraction = 3 / 2\<rparr>
     \<lparr>samples = (\<lambda>i. 0), drawn = 0\<rparr>))
   = \<lparr>origin = vec3 0 0 0, direction = vec3 0 (-1) 0\<rparr>"
  using scatterRay_diffuse_degenerate_frame
    [of "\<lparr>Material.color = vec3 (4 / 5) (4 / 5) (4 / 5),
          specular = \<lparr>Specular.color = vec3 (1 / 2) (1 / 2) 1\<rparr>,
          hasReflective = 0, hasRefractive = 0, indexOfRefraction = 3 / 2\<rparr>"
        "vec3 0 0 (-1)" "vec3 0 1 0" "\<lparr>samples = (\<lambda>i. 0), drawn = 0\<rparr>"
        "\<lparr>ray = \<lparr>origin = vec3 0 0 0, direction = vec3 0 (-1) 0\<rparr>,
          PathSegment.color = vec3 1 (1 / 2) (1 / 4), remainingBounces = 5\<rparr>"
        "vec3 1 0 0"]
  by (simp add: sample_tangent)

section \<open>The mirror branch\<close>

text \<open>
  C4. With \<open>hasReflective = 1\<close> and \<open>hasRefractive = 0\<close> the new direction is the
  reflection of the incoming direction about the normal, the colour is multiplied
  channel by channel by \<open>m.specular.color\<close> and by nothing else, \<open>remainingBounces\<close>
  goes down by one, the new origin is the hit point plus the normal times 1/10000,
  and no random number is drawn. The reflection of \<open>(1, -1, 0) / sqrt 2\<close> about
  \<open>(0, 1, 0)\<close> is \<open>(1, 1, 0) / sqrt 2\<close>; about a unit normal, the reflected
  direction has the opposite component along the normal and the same length.
\<close>

theorem scatterRay_mirror:
  assumes "hasReflective m = 1" and "hasRefractive m = 0"
  shows "scatterRay s p n m rng =
           (s\<lparr>ray := \<lparr>origin = vadd p (vscale n (1 / 10000)),
                      direction = reflect (direction (ray s)) n\<rparr>,
              PathSegment.color := vmul (PathSegment.color s) (Specular.color (specular m)),
              remainingBounces := remainingBounces s - 1\<rparr>, rng)
         \<and> reflect (vec3 (1 / sqrt 2) (- 1 / sqrt 2) 0) (vec3 0 1 0)
             = vec3 (1 / sqrt 2) (1 / sqrt 2) 0
         \<and> (dot n n = 1 \<longrightarrow>
              dot (reflect (direction (ray s)) n) n = - dot (direction (ray s)) n
              \<and> dot (reflect (direction (ray s)) n) (reflect (direction (ray s)) n)
                  = dot (direction (ray s)) (direction (ray s)))"
proof -
  have "scatterRay s p n m rng =
           (s\<lparr>ray := \<lparr>origin = vadd p (vscale n (1 / 10000)),
                      direction = reflect (direction (ray s)) n\<rparr>,
              PathSegment.color := vmul (PathSegment.color s) (Specular.color (specular m)),
              remainingBounces := remainingBounces s - 1\<rparr>, rng)"
    by (simp add: scatterRay_def assms)
  moreover have "reflect (vec3 (1 / sqrt 2) (- 1 / sqrt 2) 0) (vec3 0 1 0)
                 = vec3 (1 / sqrt 2) (1 / sqrt 2) 0"
    by (simp add: reflect_def)
  ultimately show ?thesis
    using reflect_geometric [of n "direction (ray s)"] by simp
qed

theorem scatterRay_mirror_witness:
  "scatterRay
     \<lparr>ray = \<lparr>origin = vec3 0 0 0, direction = vec3 (1 / sqrt 2) (- 1 / sqrt 2) 0\<rparr>,
      PathSegment.color = vec3 1 (1 / 2) (1 / 4), remainingBounces = 5\<rparr>
     (vec3 1 0 0) (vec3 0 1 0)
     \<lparr>Material.color = vec3 (4 / 5) (4 / 5) (4 / 5),
      specular = \<lparr>Specular.color = vec3 (1 / 2) (1 / 2) 1\<rparr>,
      hasReflective = 1, hasRefractive = 0, indexOfRefraction = 3 / 2\<rparr>
     \<lparr>samples = (\<lambda>i. 0), drawn = 0\<rparr>
   = (\<lparr>ray = \<lparr>origin = vec3 1 (1 / 10000) 0, direction = vec3 (1 / sqrt 2) (1 / sqrt 2) 0\<rparr>,
       PathSegment.color = vec3 (1 / 2) (1 / 4) (1 / 4), remainingBounces = 4\<rparr>,
      \<lparr>samples = (\<lambda>i. 0), drawn = 0\<rparr>)
   \<and> dot (vec3 (1 / sqrt 2) (1 / sqrt 2) 0) (vec3 0 1 0)
       = - dot (vec3 (1 / sqrt 2) (- 1 / sqrt 2) 0) (vec3 0 1 0)"
  using scatterRay_mirror
    [of "\<lparr>Material.color = vec3 (4 / 5) (4 / 5) (4 / 5),
          specular = \<lparr>Specular.color = vec3 (1 / 2) (1 / 2) 1\<rparr>,
          hasReflective = 1, hasRefractive = 0, indexOfRefraction = 3 / 2\<rparr>"
        "\<lparr>ray = \<lparr>origin = vec3 0 0 0, direction = vec3 (1 / sqrt 2) (- 1 / sqrt 2) 0\<rparr>,
          PathSegment.color = vec3 1 (1 / 2) (1 / 4), remainingBounces = 5\<rparr>"
        "vec3 1 0 0" "vec3 0 1 0" "\<lparr>samples = (\<lambda>i. 0), drawn = 0\<rparr>"]
  by (simp add: reflect_def)

section \<open>The dielectric branch\<close>

text \<open>
  C3. With both flags 1, let the working normal be the normal, flipped exactly when
  \<open>dot incoming normal > 0\<close>, \<open>eta\<close> the index of refraction in that case and its
  inverse otherwise, and \<open>cosine = dot incoming workingNormal\<close>. When
  \<open>1 - eta\<^sup>2 * (1 - cosine\<^sup>2) \<le> 0\<close>, the new direction is the reflection of the
  incoming direction about the working normal, the colour is \<open>(0, 0, 0)\<close>,
  \<open>remainingBounces\<close> goes down by one, the new origin is the hit point plus the
  working normal times 1/100, and no random number is drawn.
\<close>

theorem scatterRay_total_internal_reflection:
  assumes "hasReflective m = 1" and "hasRefractive m = 1"
    and "workingNormal = (if dot (direction (ray s)) n > 0 then smul (-1) n else n)"
    and "eta = (if dot (direction (ray s)) n > 0 then indexOfRefraction m
                else 1 / indexOfRefraction m)"
    and "cosine = dot (direction (ray s)) workingNormal"
    and "1 - eta\<^sup>2 * (1 - cosine\<^sup>2) \<le> 0"
  shows "scatterRay s p n m rng =
           (s\<lparr>ray := \<lparr>origin = vadd p (vscale workingNormal (1 / 100)),
                      direction = reflect (direction (ray s)) workingNormal\<rparr>,
              PathSegment.color := vec3 0 0 0,
              remainingBounces := remainingBounces s - 1\<rparr>, rng)"
proof (cases "0 < dot (direction (ray s)) n")
  case True
  with assms(3-6) have
    "1 - indexOfRefraction m * indexOfRefraction m *
       (1 - dot (direction (ray s)) (smul (-1) n) * dot (direction (ray s)) (smul (-1) n)) \<le> 0"
    by (simp add: power2_eq_square)
  with True show ?thesis
    by (simp add: scatterRay_def assms(1-5) Let_def)
next
  case False
  with assms(3-6) have
    "1 - 1 / indexOfRefraction m * (1 / indexOfRefraction m) *
       (1 - dot (direction (ray s)) n * dot (direction (ray s)) n) \<le> 0"
    by (simp add: power2_eq_square)
  with False show ?thesis
    by (simp add: scatterRay_def assms(1-5) Let_def)
qed

text \<open>
  The witness is the grazing exit of the specification's test: index 3/2, incoming
  direction \<open>(4/5, 3/5, 0)\<close> leaving through the normal \<open>(0, 1, 0)\<close>; the
  discriminant is \<open>1 - 9/4 * 16/25 = -11/25\<close>.
\<close>

theorem scatterRay_total_internal_reflection_witness:
  "scatterRay
     \<lparr>ray = \<lparr>origin = vec3 0 0 0, direction = vec3 (4 / 5) (3 / 5) 0\<rparr>,
      PathSegment.color = vec3 1 (1 / 2) (1 / 4), remainingBounces = 5\<rparr>
     (vec3 1 0 0) (vec3 0 1 0)
     \<lparr>Material.color = vec3 (4 / 5) (4 / 5) (4 / 5),
      specular = \<lparr>Specular.color = vec3 (1 / 2) (1 / 2) 1\<rparr>,
      hasReflective = 1, hasRefractive = 1, indexOfRefraction = 3 / 2\<rparr>
     \<lparr>samples = (\<lambda>i. 0), drawn = 0\<rparr>
   = (\<lparr>ray = \<lparr>origin = vec3 1 (- 1 / 100) 0, direction = vec3 (4 / 5) (- 3 / 5) 0\<rparr>,
       PathSegment.color = vec3 0 0 0, remainingBounces = 4\<rparr>,
      \<lparr>samples = (\<lambda>i. 0), drawn = 0\<rparr>)"
  using scatterRay_total_internal_reflection
    [of "\<lparr>Material.color = vec3 (4 / 5) (4 / 5) (4 / 5),
          specular = \<lparr>Specular.color = vec3 (1 / 2) (1 / 2) 1\<rparr>,
          hasReflective = 1, hasRefractive = 1, indexOfRefraction = 3 / 2\<rparr>"
        "vec3 0 (-1) 0"
        "\<lparr>ray = \<lparr>origin = vec3 0 0 0, direction = vec3 (4 / 5) (3 / 5) 0\<rparr>,
          PathSegment.color = vec3 1 (1 / 2) (1 / 4), remainingBounces = 5\<rparr>"
        "vec3 0 1 0" "3 / 2" "- 3 / 5" "vec3 1 0 0" "\<lparr>samples = (\<lambda>i. 0), drawn = 0\<rparr>"]
  by (simp add: reflect_def power2_eq_square)

text \<open>
  C1. With both flags 1 and \<open>1 - eta\<^sup>2 * (1 - cosine\<^sup>2) > 0\<close> (working normal,
  \<open>eta\<close> and \<open>cosine\<close> as in C3), let \<open>r0 = ((1 - eta) / (1 + eta))\<^sup>2\<close>,
  \<open>reflectProb = r0 + (1 - r0) * (1 - max 0 cosine) ^ 5\<close> and \<open>u\<close> the next value of
  the engine. The engine is advanced by exactly one draw. If \<open>u > reflectProb / 1.5\<close>
  the new direction is the reflection about the working normal, otherwise it is the
  normalised refraction. In both cases the colour is multiplied channel by channel by
  \<open>m.specular.color\<close>, with no division by a probability, and \<open>remainingBounces\<close>
  goes down by one. That the drawn value lies in \<open>[0,1)\<close> is the contract of the
  library's distribution; the code does not test it.
\<close>

theorem scatterRay_dielectric_split:
  assumes "hasReflective m = 1" and "hasRefractive m = 1"
    and "workingNormal = (if dot (direction (ray s)) n > 0 then smul (-1) n else n)"
    and "eta = (if dot (direction (ray s)) n > 0 then indexOfRefraction m
                else 1 / indexOfRefraction m)"
    and "cosine = dot (direction (ray s)) workingNormal"
    and "1 - eta\<^sup>2 * (1 - cosine\<^sup>2) > 0"
    and "r0 = ((1 - eta) / (1 + eta))\<^sup>2"
    and "reflectProb = r0 + (1 - r0) * (1 - max 0 cosine) ^ 5"
    and "u = samples rng (drawn rng)"
  shows "scatterRay s p n m rng =
           (if u > reflectProb / 1.5 then
              s\<lparr>ray := \<lparr>origin = vadd p (vscale workingNormal (1 / 100)),
                        direction = reflect (direction (ray s)) workingNormal\<rparr>,
                PathSegment.color :=
                  vmul (PathSegment.color s) (Specular.color (specular m)),
                remainingBounces := remainingBounces s - 1\<rparr>
            else
              s\<lparr>ray := \<lparr>origin = vadd p (vscale (refract (direction (ray s))
                                                     workingNormal eta) (1 / 100)),
                        direction = normalize (refract (direction (ray s))
                                                 workingNormal eta)\<rparr>,
                PathSegment.color :=
                  vmul (PathSegment.color s) (Specular.color (specular m)),
                remainingBounces := remainingBounces s - 1\<rparr>,
            rng\<lparr>drawn := drawn rng + 1\<rparr>)"
proof (cases "0 < dot (direction (ray s)) n")
  case True
  with assms(3-6) have
    "1 - indexOfRefraction m * indexOfRefraction m *
       (1 - dot (direction (ray s)) (smul (-1) n) * dot (direction (ray s)) (smul (-1) n)) > 0"
    by (simp add: power2_eq_square)
  with True show ?thesis
    by (simp add: scatterRay_def u01_def assms(1-5) assms(7-9) Let_def power2_eq_square)
next
  case False
  with assms(3-6) have
    "1 - 1 / indexOfRefraction m * (1 / indexOfRefraction m) *
       (1 - dot (direction (ray s)) n * dot (direction (ray s)) n) > 0"
    by (simp add: power2_eq_square)
  with False show ?thesis
    by (simp add: scatterRay_def u01_def assms(1-5) assms(7-9) Let_def power2_eq_square)
qed

text \<open>
  The witness enters the medium head-on (index 3/2, \<open>eta = 2/3\<close>, \<open>cosine = -1\<close>,
  \<open>r0 = 1/25\<close>, \<open>reflectProb = 1\<close>): a draw of 3/4 is above 2/3 and reflects, a draw of
  1/4 refracts.
\<close>

theorem scatterRay_dielectric_split_witness:
  "scatterRay
     \<lparr>ray = \<lparr>origin = vec3 0 0 0, direction = vec3 0 (-1) 0\<rparr>,
      PathSegment.color = vec3 1 (1 / 2) (1 / 4), remainingBounces = 5\<rparr>
     (vec3 1 0 0) (vec3 0 1 0)
     \<lparr>Material.color = vec3 (4 / 5) (4 / 5) (4 / 5),
      specular = \<lparr>Specular.color = vec3 (1 / 2) (1 / 2) 1\<rparr>,
      hasReflective = 1, hasRefractive = 1, indexOfRefraction = 3 / 2\<rparr>
     \<lparr>samples = (\<lambda>i. 3 / 4), drawn = 0\<rparr>
   = (\<lparr>ray = \<lparr>origin = vec3 1 (1 / 100) 0, direction = vec3 0 1 0\<rparr>,
       PathSegment.color = vec3 (1 / 2) (1 / 4) (1 / 4), remainingBounces = 4\<rparr>,
      \<lparr>samples = (\<lambda>i. 3 / 4), drawn = 1\<rparr>)
   \<and>
   scatterRay
     \<lparr>ray = \<lparr>origin = vec3 0 0 0, direction = vec3 0 (-1) 0\<rparr>,
      PathSegment.color = vec3 1 (1 / 2) (1 / 4), remainingBounces = 5\<rparr>
     (vec3 1 0 0) (vec3 0 1 0)
     \<lparr>Material.color = vec3 (4 / 5) (4 / 5) (4 / 5),
      specular = \<lparr>Specular.color = vec3 (1 / 2) (1 / 2) 1\<rparr>,
      hasReflective = 1, hasRefractive = 1, indexOfRefraction = 3 / 2\<rparr>
     \<lparr>samples = (\<lambda>i. 1 / 4), drawn = 0\<rparr>
   = (\<lparr>ray = \<lparr>origin = vec3 1 (- 1 / 100) 0, direction = vec3 0 (-1) 0\<rparr>,
       PathSegment.color = vec3 (1 / 2) (1 / 4) (1 / 4), remainingBounces = 4\<rparr>,
      \<lparr>samples = (\<lambda>i. 1 / 4), drawn = 1\<rparr>)"
  using scatterRay_dielectric_split
    [of "\<lparr>Material.color = vec3 (4 / 5) (4 / 5) (4 / 5),
          specular = \<lparr>Specular.color = vec3 (1 / 2) (1 / 2) 1\<rparr>,
          hasReflective = 1, hasRefractive = 1, indexOfRefraction = 3 / 2\<rparr>"
        "vec3 0 1 0"
        "\<lparr>ray = \<lparr>origin = vec3 0 0 0, direction = vec3 0 (-1) 0\<rparr>,
          PathSegment.color = vec3 1 (1 / 2) (1 / 4), remainingBounces = 5\<rparr>"
        "vec3 0 1 0" "2 / 3" "- 1" "1 / 25" "1" "3 / 4"
        "\<lparr>samples = (\<lambda>i. 3 / 4), drawn = 0\<rparr>" "vec3 1 0 0"]
    scatterRay_dielectric_split
    [of "\<lparr>Material.color = vec3 (4 / 5) (4 / 5) (4 / 5),
          specular = \<lparr>Specular.color = vec3 (1 / 2) (1 / 2) 1\<rparr>,
          hasReflective = 1, hasRefractive = 1, indexOfRefraction = 3 / 2\<rparr>"
        "vec3 0 1 0"
        "\<lparr>ray = \<lparr>origin = vec3 0 0 0, direction = vec3 0 (-1) 0\<rparr>,
          PathSegment.color = vec3 1 (1 / 2) (1 / 4), remainingBounces = 5\<rparr>"
        "vec3 0 1 0" "2 / 3" "- 1" "1 / 25" "1" "1 / 4"
        "\<lparr>samples = (\<lambda>i. 1 / 4), drawn = 0\<rparr>" "vec3 1 0 0"]
  by (simp add: reflect_def refract_def normalize_def power2_eq_square)

section \<open>All branches\<close>

text \<open>
  C8. A material whose flags are none of \<open>(0, 0)\<close>, \<open>(1, 0)\<close> and \<open>(1, 1)\<close> enters
  no branch: the segment (ray, colour and \<open>remainingBounces\<close>) and the engine come
  back as they were.
\<close>

theorem scatterRay_unmatched_flags_identity:
  assumes "\<not> (hasReflective m = 0 \<and> hasRefractive m = 0)"
    and "\<not> (hasReflective m = 1 \<and> hasRefractive m = 0)"
    and "\<not> (hasReflective m = 1 \<and> hasRefractive m = 1)"
  shows "scatterRay s p n m rng = (s, rng)"
  by (simp only: scatterRay_def assms if_False)

text \<open>The witness has the flag pair \<open>(0, 1)\<close> and the fractional pair \<open>(1/2, 0)\<close>.\<close>

theorem scatterRay_unmatched_flags_identity_witness:
  "scatterRay
     \<lparr>ray = \<lparr>origin = vec3 0 0 0, direction = vec3 0 (-1) 0\<rparr>,
      PathSegment.color = vec3 1 (1 / 2) (1 / 4), remainingBounces = 5\<rparr>
     (vec3 1 0 0) (vec3 0 1 0)
     \<lparr>Material.color = vec3 (4 / 5) (4 / 5) (4 / 5),
      specular = \<lparr>Specular.color = vec3 (1 / 2) (1 / 2) 1\<rparr>,
      hasReflective = 0, hasRefractive = 1, indexOfRefraction = 3 / 2\<rparr>
     \<lparr>samples = (\<lambda>i. 0), drawn = 0\<rparr>
   = (\<lparr>ray = \<lparr>origin = vec3 0 0 0, direction = vec3 0 (-1) 0\<rparr>,
       PathSegment.color = vec3 1 (1 / 2) (1 / 4), remainingBounces = 5\<rparr>,
      \<lparr>samples = (\<lambda>i. 0), drawn = 0\<rparr>)
   \<and>
   scatterRay
     \<lparr>ray = \<lparr>origin = vec3 0 0 0, direction = vec3 0 (-1) 0\<rparr>,
      PathSegment.color = vec3 1 (1 / 2) (1 / 4), remainingBounces = 5\<rparr>
     (vec3 1 0 0) (vec3 0 1 0)
     \<lparr>Material.color = vec3 (4 / 5) (4 / 5) (4 / 5),
      specular = \<lparr>Specular.color = vec3 (1 / 2) (1 / 2) 1\<rparr>,
      hasReflective = 1 / 2, hasRefractive = 0, indexOfRefraction = 3 / 2\<rparr>
     \<lparr>samples = (\<lambda>i. 0), drawn = 0\<rparr>
   = (\<lparr>ray = \<lparr>origin = vec3 0 0 0, direction = vec3 0 (-1) 0\<rparr>,
       PathSegment.color = vec3 1 (1 / 2) (1 / 4), remainingBounces = 5\<rparr>,
      \<lparr>samples = (\<lambda>i. 0), drawn = 0\<rparr>)"
  using scatterRay_unmatched_flags_identity
    [of "\<lparr>Material.color = vec3 (4 / 5) (4 / 5) (4 / 5),
          specular = \<lparr>Specular.color = vec3 (1 / 2) (1 / 2) 1\<rparr>,
          hasReflective = 0, hasRefractive = 1, indexOfRefraction = 3 / 2\<rparr>"]
    scatterRay_unmatched_flags_identity
    [of "\<lparr>Material.color = vec3 (4 / 5) (4 / 5) (4 / 5),
          specular = \<lparr>Specular.color = vec3 (1 / 2) (1 / 2) 1\<rparr>,
          hasReflective = 1 / 2, hasRefractive = 0, indexOfRefraction = 3 / 2\<rparr>"]
  by simp

text \<open>
  C10. For a unit normal (the normal that the intersection stage hands over): if
  every channel of the segment's colour, of \<open>m.color\<close> and of \<open>m.specular.color\<close> is
  at least 0 before the call, every channel of the segment's colour is at least 0
  after it, whatever the flags, the hit point, the incoming direction and the random
  numbers are. In the diffuse branch the factor is built from \<open>\<bar>dot n d\<bar>\<close>, which is
  not negative on either side of the horizon.

  The unit normal is what keeps the arithmetic of the diffuse branch defined: with
  \<open>a\<close> the axis that the sampler picks, both vectors that the sampler normalises,
  \<open>cross n a\<close> and \<open>cross n (normalize (cross n a))\<close>, have a positive squared
  length, so neither normalisation divides by zero. For a normal such as
  \<open>(0, 0, 0)\<close> the first cross product is the zero vector and the float code's
  normalisation is not a number; such normals are outside this statement.
\<close>

theorem scatterRay_color_nonneg:
  assumes "nonneg (PathSegment.color s)" and "nonneg (Material.color m)"
    and "nonneg (Specular.color (specular m))"
    and "dot n n = 1"
    and "a = (if \<bar>x_of n\<bar> < SQRT_OF_ONE_THIRD then vec3 1 0 0
              else if \<bar>y_of n\<bar> < SQRT_OF_ONE_THIRD then vec3 0 1 0
              else vec3 0 0 1)"
  shows "nonneg (PathSegment.color (fst (scatterRay s p n m rng)))
         \<and> 0 < dot (cross n a) (cross n a)
         \<and> 0 < dot (cross n (normalize (cross n a))) (cross n (normalize (cross n a)))"
proof -
  define k where "k = \<bar>dot n (fst (calculateRandomDirectionInHemisphere n rng))\<bar>"
  have nz1: "0 < dot (cross n a) (cross n a)"
    unfolding assms(5) using assms(4) by (rule directionNotNormal_cross_nonzero)
  note fr = hemisphere_frame [OF assms(4) nz1 refl refl]
  have "dot (cross n (normalize (cross n a))) (cross n (normalize (cross n a))) = 1"
    by (simp add: cross_lagrange assms(4) fr(1) fr(2))
  then have nz2: "0 < dot (cross n (normalize (cross n a))) (cross n (normalize (cross n a)))"
    by simp
  have spec: "nonneg (vmul (PathSegment.color s) (Specular.color (specular m)))"
    using assms(1,3) by (rule nonneg_vmul)
  consider (diffuse) "hasReflective m = 0" "hasRefractive m = 0"
    | (mirror) "hasReflective m = 1" "hasRefractive m = 0"
    | (dielectric) "hasReflective m = 1" "hasRefractive m = 1"
    | (none) "\<not> (hasReflective m = 0 \<and> hasRefractive m = 0)"
        "\<not> (hasReflective m = 1 \<and> hasRefractive m = 0)"
        "\<not> (hasReflective m = 1 \<and> hasRefractive m = 1)"
    by blast
  then have "nonneg (PathSegment.color (fst (scatterRay s p n m rng)))"
  proof cases
    case diffuse
    show ?thesis
    proof (cases "k / PI = 0")
      case True
      then show ?thesis
        unfolding k_def
        by (simp add: scatterRay_diffuse_zero [OF diffuse] nonneg_zero)
    next
      case False
      then have "k \<noteq> 0" by auto
      then have "vdiv (vscale (vdiv (Material.color m) PI) k) (k / PI) = Material.color m"
        by (rule lambert_ratio)
      with False assms(1,2) show ?thesis
        unfolding k_def
        by (simp add: scatterRay_diffuse_nonzero [OF diffuse] nonneg_vmul)
    qed
  next
    case mirror
    with spec show ?thesis by (simp add: scatterRay_def)
  next
    case dielectric
    with spec show ?thesis
      by (simp add: scatterRay_def Let_def u01_def nonneg_zero)
  next
    case none
    with assms(1) show ?thesis by (simp only: scatterRay_def if_False fst_conv)
  qed
  with nz1 nz2 show ?thesis by simp
qed

theorem scatterRay_color_nonneg_witness:
  "nonneg (PathSegment.color (fst (scatterRay
     \<lparr>ray = \<lparr>origin = vec3 0 0 0, direction = vec3 0 (-1) 0\<rparr>,
      PathSegment.color = vec3 1 (1 / 2) (1 / 4), remainingBounces = 5\<rparr>
     (vec3 1 0 0) (vec3 0 1 0)
     \<lparr>Material.color = vec3 (4 / 5) (4 / 5) (4 / 5),
      specular = \<lparr>Specular.color = vec3 (1 / 2) (1 / 2) 1\<rparr>,
      hasReflective = 0, hasRefractive = 0, indexOfRefraction = 3 / 2\<rparr>
     \<lparr>samples = (\<lambda>i. if i = 0 then 1 / 4 else 0), drawn = 0\<rparr>)))
   \<and> dot (vec3 0 1 0) (vec3 0 1 0) = 1"
  using scatterRay_color_nonneg
    [of "\<lparr>ray = \<lparr>origin = vec3 0 0 0, direction = vec3 0 (-1) 0\<rparr>,
          PathSegment.color = vec3 1 (1 / 2) (1 / 4), remainingBounces = 5\<rparr>"
        "\<lparr>Material.color = vec3 (4 / 5) (4 / 5) (4 / 5),
          specular = \<lparr>Specular.color = vec3 (1 / 2) (1 / 2) 1\<rparr>,
          hasReflective = 0, hasRefractive = 0, indexOfRefraction = 3 / 2\<rparr>"
        "vec3 0 1 0" "vec3 1 0 0" "vec3 1 0 0"
        "\<lparr>samples = (\<lambda>i. if i = 0 then 1 / 4 else 0), drawn = 0\<rparr>"]
  by (simp add: nonneg_def SQRT_OF_ONE_THIRD_def)

section \<open>The termination functor\<close>

text \<open>
  C7. The predicate \<open>isTerminated\<close> is true exactly when \<open>remainingBounces\<close> is
  strictly positive: true at 1, false at 0 and false at every negative value. Its
  result is a function of the segment alone; the segment is an argument that is read,
  never returned changed.
\<close>

theorem isTerminated_iff_positive:
  "isTerminated s = (0 < remainingBounces s)
   \<and> isTerminated (s\<lparr>remainingBounces := 1\<rparr>)
   \<and> \<not> isTerminated (s\<lparr>remainingBounces := 0\<rparr>)
   \<and> (\<forall>k. k < 0 \<longrightarrow> \<not> isTerminated (s\<lparr>remainingBounces := k\<rparr>))"
  by (simp add: isTerminated_def)

theorem isTerminated_iff_positive_witness:
  "(-3::int) < 0
   \<and> \<not> isTerminated (\<lparr>ray = \<lparr>origin = vec3 0 0 0, direction = vec3 0 (-1) 0\<rparr>,
                        PathSegment.color = vec3 1 (1 / 2) (1 / 4), remainingBounces = -3\<rparr>)"
  using isTerminated_iff_positive
    [of "\<lparr>ray = \<lparr>origin = vec3 0 0 0, direction = vec3 0 (-1) 0\<rparr>,
          PathSegment.color = vec3 1 (1 / 2) (1 / 4), remainingBounces = 5\<rparr>"]
  by simp

end
